theory Spec2Isabelle
  imports
    Complex_Main
    "HOL-Library.Product_Lexorder"
    "HOL-Library.List_Lexorder"
    "HOL-Library.Char_ord"
begin

section \<open>The Snacks Fund dashboard\<close>

text \<open>
  The repository holds one dashboard script in two variants: \<^verbatim>\<open>snacks_fund_app.py\<close>
  (the dashboard) and an older copy that \<^verbatim>\<open>fund-dashboard-launcher.py\<close> carries as a
  string and writes to disk before starting it (the launcher-embedded variant). Both read
  a spreadsheet into a pandas data frame, show four metrics and four charts, filter the
  rows by the values of three widgets and export the filtered rows on request.

  The model below follows the script line by line. The pandas operations the script calls
  (\<^verbatim>\<open>sum\<close>, \<^verbatim>\<open>nunique\<close>, \<^verbatim>\<open>groupby\<close>, \<^verbatim>\<open>sort_values\<close>,
  \<^verbatim>\<open>resample\<close>, boolean indexing) are written out as list functions, as pandas
  before version 3 computes them: from version 3 on pandas no longer accepts the
  frequency alias \<^verbatim>\<open>'M'\<close> of line 65, and the run ends there in the handler of lines
  125 to 128.

  Amounts are rationals. A column of whole numbers is added up in 64-bit integers, which
  wrap; the sums of any other column are exact (the rounding of binary floating point is
  outside the model). Every cell of a required column holds a value (blank cells are
  outside the model). A spreadsheet file is the table of its cells: what the xlsx writer
  and reader do to a cell (a text that starts with \<^verbatim>\<open>=\<close> is written as a formula
  and read back blank, a time is kept to the precision of the format) is outside the
  model.
\<close>

subsection \<open>Dates, rows and frames\<close>

text \<open>
  A calendar date is year, month and day; a timestamp is a calendar date and the
  nanoseconds since midnight. Both are ordered lexicographically, which is chronological
  order. \<^verbatim>\<open>Timestamp.date()\<close> and \<^verbatim>\<open>Series.dt.date\<close> drop the time of day.
\<close>

type_synonym date = "int \<times> nat \<times> nat"

type_synonym timestamp = "date \<times> nat"

definition date_of :: "timestamp \<Rightarrow> date" where
  "date_of t = fst t"

text \<open>
  A row of the table holds the five required columns. The type of the Date cell is a
  parameter: in the sheet as read it is a date cell or text; after
  \<^verbatim>\<open>pd.to_datetime\<close> it is a timestamp.
\<close>

record 'd row =
  Date :: 'd
  Contributors :: string
  Spend :: rat
  Contribution :: rat
  Balance :: rat

text \<open>
  A frame is a header (the column names, in order) and the rows. The fields of a row are
  read only after the header has been checked for the five required names.
\<close>

record 'd frame =
  columns :: "string list"
  rows :: "'d row list"

datatype raw_date = Stamp timestamp | DateText string

type_synonym sheet = "raw_date frame"

type_synonym dataframe = "timestamp frame"

text \<open>The spreadsheet files, by path.\<close>

type_synonym files = "string \<Rightarrow> sheet option"

text \<open>
  The three ways a run ends early: the file is absent (line 18), a required column is
  absent (line 31), or an exception reaches the handler of lines 125 to 128.
\<close>

datatype error = FileNotFound string | ColumnNotFound string | Exception

subsection \<open>Loading (lines 14 to 36)\<close>

definition required_columns :: "string list" where
  "required_columns = [''Date'', ''Contributors'', ''Spend'', ''Contribution'', ''Balance'']"

text \<open>
  The loop of lines 29 to 33: the first required column that the header lacks ends the
  run; \<open>None\<close> when the loop runs to its end.
\<close>

fun check_columns :: "string list \<Rightarrow> string list \<Rightarrow> string option" where
  "check_columns [] cols = None"
| "check_columns (col # rest) cols =
     (if col \<notin> set cols then Some col else check_columns rest cols)"

text \<open>
  \<^verbatim>\<open>pd.to_datetime\<close> (line 36): a date cell keeps its value, text is parsed. The parser
  is pandas' own and is a parameter here; \<open>None\<close> is a text it rejects, which raises.
  The model loads more sheets than pandas does: a date cell beyond the range of pandas'
  nanosecond timestamps (after 2262-04-11) raises there and is kept here, and pandas
  picks one format for a whole column of text where the parser here sees each cell alone.
\<close>

fun to_datetime_cell :: "(string \<Rightarrow> timestamp option) \<Rightarrow> raw_date \<Rightarrow> timestamp option" where
  "to_datetime_cell parse (Stamp t) = Some t"
| "to_datetime_cell parse (DateText s) = parse s"

definition map_date :: "('a \<Rightarrow> 'b) \<Rightarrow> 'a row \<Rightarrow> 'b row" where
  "map_date f r =
     \<lparr>Date = f (Date r), Contributors = Contributors r, Spend = Spend r,
      Contribution = Contribution r, Balance = Balance r\<rparr>"

definition to_datetime :: "(string \<Rightarrow> timestamp option) \<Rightarrow> sheet \<Rightarrow> dataframe option" where
  "to_datetime parse sh =
     (if \<exists>r \<in> set (rows sh). to_datetime_cell parse (Date r) = None then None
      else Some \<lparr>columns = columns sh,
                 rows = map (map_date (\<lambda>c. the (to_datetime_cell parse c))) (rows sh)\<rparr>)"

text \<open>Lines 17 to 36, with the path of the file as an argument.\<close>

definition load :: "(string \<Rightarrow> timestamp option) \<Rightarrow> files \<Rightarrow> string \<Rightarrow> error + dataframe" where
  "load parse fs file_path =
     (case fs file_path of
        None \<Rightarrow> Inl (FileNotFound file_path)
      | Some sh \<Rightarrow>
          (case check_columns required_columns (columns sh) of
             Some col \<Rightarrow> Inl (ColumnNotFound col)
           | None \<Rightarrow>
               (case to_datetime parse sh of
                  None \<Rightarrow> Inl Exception
                | Some df \<Rightarrow> Inr df)))"

subsection \<open>Sums of a column\<close>

text \<open>
  A numeric column whose cells are all whole numbers of the 64-bit range has the dtype
  \<^verbatim>\<open>int64\<close>. pandas adds such a column up in 64-bit two's complement, in
  \<^verbatim>\<open>Series.sum\<close> and in the sums of \<^verbatim>\<open>groupby\<close> and \<^verbatim>\<open>resample\<close>
  alike: the result is the exact sum wrapped into the range from \<^verbatim>\<open>-2^63\<close> to
  \<^verbatim>\<open>2^63 - 1\<close>. Any other numeric column is \<^verbatim>\<open>float64\<close>, and its sums are
  taken as exact. A selection of rows keeps the dtype of its column, so \<open>column_sum\<close>
  gets the whole column and the cells to add.
\<close>

definition wrap64 :: "int \<Rightarrow> int" where
  "wrap64 n = (n + 2 ^ 63) mod 2 ^ 64 - 2 ^ 63"

definition whole :: "rat \<Rightarrow> bool" where
  "whole x = (rat_of_int \<lfloor>x\<rfloor> = x)"

definition in_int64 :: "rat \<Rightarrow> bool" where
  "in_int64 x = (- (2 ^ 63) \<le> x \<and> x < 2 ^ 63)"

definition int64_dtype :: "rat list \<Rightarrow> bool" where
  "int64_dtype col = list_all (\<lambda>x. whole x \<and> in_int64 x) col"

definition column_sum :: "rat list \<Rightarrow> rat list \<Rightarrow> rat" where
  "column_sum col xs =
     (if int64_dtype col then rat_of_int (wrap64 \<lfloor>sum_list xs\<rfloor>) else sum_list xs)"

subsection \<open>Summary metrics (lines 130 to 148)\<close>

record metrics =
  total_contributions :: rat
  total_spending :: rat
  current_balance :: rat
  valid_contributors :: nat

text \<open>\<^verbatim>\<open>Series.nunique()\<close>: the number of distinct values.\<close>

definition nunique :: "'a list \<Rightarrow> nat" where
  "nunique xs = length (remdups xs)"

text \<open>
  \<^verbatim>\<open>df.empty\<close>: every frame that reaches line 143 has the five required columns, so
  it is empty exactly when it has no rows.
\<close>

definition empty_frame :: "'d frame \<Rightarrow> bool" where
  "empty_frame df = (rows df = [])"

definition display_summary_metrics :: "dataframe \<Rightarrow> metrics" where
  "display_summary_metrics df =
     \<lparr>total_contributions =
        column_sum (map Contribution (rows df)) (map Contribution (rows df)),
      total_spending = column_sum (map Spend (rows df)) (map Spend (rows df)),
      current_balance = (if \<not> empty_frame df then Balance (last (rows df)) else 0),
      valid_contributors =
        nunique (map Contributors (filter (\<lambda>r. Contribution r > 0) (rows df)))\<rparr>"

text \<open>
  The launcher-embedded variant (lines 67 to 69 of the launcher) counts the contributors
  of all rows.
\<close>

definition num_contributors :: "dataframe \<Rightarrow> nat" where
  "num_contributors df = nunique (map Contributors (rows df))"

subsection \<open>Charts (lines 46 to 79)\<close>

text \<open>
  \<^verbatim>\<open>groupby(key)[val].sum().reset_index()\<close>: one row per distinct key, the keys in
  ascending order, each with the sum of its rows' values; \<open>col\<close> is the whole column
  the values are taken from.
\<close>

definition groupby_sum :: "rat list \<Rightarrow> ('r \<Rightarrow> string) \<Rightarrow> ('r \<Rightarrow> rat) \<Rightarrow> 'r list \<Rightarrow> (string \<times> rat) list" where
  "groupby_sum col key val xs =
     map (\<lambda>k. (k, column_sum col (map val (filter (\<lambda>r. key r = k) xs))))
       (sort (remdups (map key xs)))"

text \<open>Lines 57 and 58 of the dashboard.\<close>

definition contrib_by_person :: "dataframe \<Rightarrow> (string \<times> rat) list" where
  "contrib_by_person df =
     filter (\<lambda>p. snd p > 0)
       (groupby_sum (map Contribution (rows df)) Contributors Contribution
          (filter (\<lambda>r. Contribution r > 0) (rows df)))"

text \<open>
  \<^verbatim>\<open>sort_values('Contribution', ascending=False)\<close>: pandas reverses the rows, sorts
  them in ascending order and reverses the result. The sort is taken to be stable here;
  the order it gives to rows with equal sums is the only thing that depends on that.
\<close>

definition sort_values_desc :: "(string \<times> rat) list \<Rightarrow> (string \<times> rat) list" where
  "sort_values_desc xs = rev (sort_key snd (rev xs))"

text \<open>Lines 83 and 84 of the launcher-embedded variant.\<close>

definition contrib_by_person_launcher :: "dataframe \<Rightarrow> (string \<times> rat) list" where
  "contrib_by_person_launcher df =
     sort_values_desc
       (groupby_sum (map Contribution (rows df)) Contributors Contribution (rows df))"

text \<open>
  The total the specification speaks of: the sum of the contributions of a contributor's
  rows.
\<close>

definition contribution_of :: "dataframe \<Rightarrow> string \<Rightarrow> rat" where
  "contribution_of df k =
     sum_list (map Contribution (filter (\<lambda>r. Contributors r = k) (rows df)))"

text \<open>
  \<^verbatim>\<open>df.resample('M', on='Date').agg({'Contribution': 'sum', 'Spend': 'sum'})\<close>
  (lines 65 to 68), as pandas before version 3 computes it (from version 3 on the alias
  \<^verbatim>\<open>'M'\<close> raises): the months are numbered consecutively (twelve per year); the result
  has one row for every month from the earliest to the latest month of the Date column,
  and a month without rows gets the sum of nothing, 0. pandas labels a row with the last
  day of its month; the model labels it with the year and the month.
\<close>

definition month_index :: "timestamp \<Rightarrow> int" where
  "month_index t = (case t of ((y, m, d), ns) \<Rightarrow> y * 12 + int m - 1)"

definition month_label :: "int \<Rightarrow> int \<times> nat" where
  "month_label i = (i div 12, nat (i mod 12) + 1)"

definition month_of :: "timestamp row \<Rightarrow> int \<times> nat" where
  "month_of r = (case Date r of ((y, m, d), ns) \<Rightarrow> (y, m))"

definition first_month :: "dataframe \<Rightarrow> int" where
  "first_month df = Min (set (map (\<lambda>r. month_index (Date r)) (rows df)))"

definition last_month :: "dataframe \<Rightarrow> int" where
  "last_month df = Max (set (map (\<lambda>r. month_index (Date r)) (rows df)))"

definition monthly_data :: "dataframe \<Rightarrow> ((int \<times> nat) \<times> rat \<times> rat) list" where
  "monthly_data df =
     (if rows df = [] then []
      else
        map (\<lambda>i. (month_label i,
                  column_sum (map Contribution (rows df))
                    (map Contribution (filter (\<lambda>r. month_index (Date r) = i) (rows df))),
                  column_sum (map Spend (rows df))
                    (map Spend (filter (\<lambda>r. month_index (Date r) = i) (rows df)))))
          [first_month df .. last_month df])"

subsection \<open>Filters and export (lines 84 to 123)\<close>

text \<open>
  \<^verbatim>\<open>df['Date'].min().date()\<close> and its maximum (lines 87 and 88). The minimum of an
  empty column is pandas' \<^verbatim>\<open>NaT\<close>, written \<open>None\<close>.
\<close>

definition min_date :: "dataframe \<Rightarrow> date option" where
  "min_date df =
     (if rows df = [] then None else Some (date_of (Min (set (map Date (rows df))))))"

definition max_date :: "dataframe \<Rightarrow> date option" where
  "max_date df =
     (if rows df = [] then None else Some (date_of (Max (set (map Date (rows df))))))"

text \<open>Lines 100 to 110: three narrowings, one after the other.\<close>

definition filter_dates :: "date \<Rightarrow> date \<Rightarrow> dataframe \<Rightarrow> dataframe" where
  "filter_dates start_date end_date df =
     df\<lparr>rows := filter (\<lambda>r. date_of (Date r) \<ge> start_date \<and> date_of (Date r) \<le> end_date)
                    (rows df)\<rparr>"

definition filter_contributor :: "string \<Rightarrow> dataframe \<Rightarrow> dataframe" where
  "filter_contributor selected_contributor df =
     (if selected_contributor \<noteq> ''All''
      then df\<lparr>rows := filter (\<lambda>r. Contributors r = selected_contributor) (rows df)\<rparr>
      else df)"

definition filter_type :: "string \<Rightarrow> dataframe \<Rightarrow> dataframe" where
  "filter_type transaction_type df =
     (if transaction_type = ''Contribution''
      then df\<lparr>rows := filter (\<lambda>r. Contribution r > 0) (rows df)\<rparr>
      else if transaction_type = ''Spending''
      then df\<lparr>rows := filter (\<lambda>r. Spend r > 0) (rows df)\<rparr>
      else df)"

definition filtered_df :: "dataframe \<Rightarrow> date \<Rightarrow> date \<Rightarrow> string \<Rightarrow> string \<Rightarrow> dataframe" where
  "filtered_df df start_date end_date selected_contributor transaction_type =
     filter_type transaction_type
       (filter_contributor selected_contributor
         (filter_dates start_date end_date df))"

text \<open>
  The filter as the specification words it: a row is kept when its date lies in the
  closed range, its contributor is the selected one unless the selection is "All", and
  its amount of the selected type is positive.
\<close>

definition keeps :: "date \<Rightarrow> date \<Rightarrow> string \<Rightarrow> string \<Rightarrow> timestamp row \<Rightarrow> bool" where
  "keeps start_date end_date contributor transaction_type r =
     (start_date \<le> date_of (Date r) \<and> date_of (Date r) \<le> end_date
      \<and> (contributor \<noteq> ''All'' \<longrightarrow> Contributors r = contributor)
      \<and> (transaction_type = ''Contribution'' \<longrightarrow> Contribution r > 0)
      \<and> (transaction_type = ''Spending'' \<longrightarrow> Spend r > 0))"

text \<open>
  \<^verbatim>\<open>os.path.join\<close> of a directory and a file name, and the two paths of the script.
\<close>

definition path_join :: "string \<Rightarrow> string \<Rightarrow> string" where
  "path_join dir name =
     (if dir = [] then name
      else if last dir = CHR ''/'' then dir @ name
      else dir @ ''/'' @ name)"

definition file_path :: "string \<Rightarrow> string" where
  "file_path dir = path_join dir ''Snacks_Fund.xlsx''"

definition export_path :: "string \<Rightarrow> string" where
  "export_path dir = path_join dir ''exported_fund_data.xlsx''"

text \<open>
  \<^verbatim>\<open>to_excel(export_path, index=False)\<close> (line 122): the header and the rows, no index
  column; a timestamp is written as a date cell. The file at the path is replaced. The
  file is the table itself: the xlsx writer is not modelled, so nothing here says what a
  later read of the file returns for a cell the format does not keep.
\<close>

definition to_excel :: "dataframe \<Rightarrow> sheet" where
  "to_excel df = \<lparr>columns = columns df, rows = map (map_date Stamp) (rows df)\<rparr>"

definition export :: "files \<Rightarrow> string \<Rightarrow> dataframe \<Rightarrow> files" where
  "export fs dir df = fs(export_path dir := Some (to_excel df))"

subsection \<open>The run (lines 12 to 128)\<close>

text \<open>
  The widgets are the run's environment. \<open>date_input\<close> gets its label and its default
  (\<open>None\<close> for \<^verbatim>\<open>NaT\<close>) and gives the selected date, or \<open>None\<close> when producing
  it raises; \<open>selectbox\<close> gets its label and its options; \<open>button\<close> gets its label.
\<close>

record widgets =
  date_input :: "string \<Rightarrow> date option \<Rightarrow> date option"
  selectbox :: "string \<Rightarrow> string list \<Rightarrow> string"
  button :: "string \<Rightarrow> bool"

text \<open>What a run puts on the page, in the order of the script.\<close>

datatype element =
    ErrorMessage error
  | SummaryMetrics metrics
  | BalanceOverTime "(timestamp \<times> rat) list"
  | ContributionsByContributor "(string \<times> rat) list"
  | ContributionsVsSpending "((int \<times> nat) \<times> rat \<times> rat) list"
  | TotalSpendingVsContributions rat rat
  | TransactionDetails dataframe
  | DataExported string

definition charts :: "dataframe \<Rightarrow> element list" where
  "charts df =
     [BalanceOverTime (map (\<lambda>r. (Date r, Balance r)) (rows df)),
      ContributionsByContributor (contrib_by_person df),
      ContributionsVsSpending (monthly_data df),
      TotalSpendingVsContributions
        (column_sum (map Contribution (rows df)) (map Contribution (rows df)))
        (column_sum (map Spend (rows df)) (map Spend (rows df)))]"

definition transaction_details :: "widgets \<Rightarrow> string \<Rightarrow> files \<Rightarrow> dataframe \<Rightarrow> element list \<times> files" where
  "transaction_details w dir fs df =
     (case date_input w ''Start Date'' (min_date df) of
        None \<Rightarrow> ([ErrorMessage Exception], fs)
      | Some start_date \<Rightarrow>
          (case date_input w ''End Date'' (max_date df) of
             None \<Rightarrow> ([ErrorMessage Exception], fs)
           | Some end_date \<Rightarrow>
               (let contributors = ''All'' # sort (remdups (map Contributors (rows df)));
                    selected_contributor = selectbox w ''Contributor'' contributors;
                    transaction_type =
                      selectbox w ''Transaction Type'' [''All'', ''Contribution'', ''Spending''];
                    view = filtered_df df start_date end_date selected_contributor transaction_type
                in if button w ''Export Filtered Data''
                   then ([TransactionDetails view, DataExported (export_path dir)],
                         export fs dir view)
                   else ([TransactionDetails view], fs))))"

definition main :: "(string \<Rightarrow> timestamp option) \<Rightarrow> widgets \<Rightarrow> string \<Rightarrow> files \<Rightarrow> element list \<times> files" where
  "main parse w dir fs =
     (case load parse fs (file_path dir) of
        Inl e \<Rightarrow> ([ErrorMessage e], fs)
      | Inr df \<Rightarrow>
          (let (shown, fs') = transaction_details w dir fs df
           in (SummaryMetrics (display_summary_metrics df) # charts df @ shown, fs')))"

subsection \<open>Example inputs\<close>

text \<open>
  The ledger of the specification's example scenario, the same ledger with its second row
  two months later, a ledger of two contributions, a ledger of two contributions of
  5000000000000000000 each, and spreadsheets that hold them. The example widgets leave every control at its default and do not press the button.
\<close>

definition example_df :: dataframe where
  "example_df =
     \<lparr>columns = required_columns,
      rows = [\<lparr>Date = ((2024, 1, 1), 0), Contributors = ''Alice'', Spend = 0,
               Contribution = 100, Balance = 100\<rparr>,
              \<lparr>Date = ((2024, 1, 15), 0), Contributors = ''Bob'', Spend = 30,
               Contribution = 0, Balance = 70\<rparr>]\<rparr>"

definition gap_df :: dataframe where
  "gap_df =
     \<lparr>columns = required_columns,
      rows = [\<lparr>Date = ((2024, 1, 1), 0), Contributors = ''Alice'', Spend = 0,
               Contribution = 100, Balance = 100\<rparr>,
              \<lparr>Date = ((2024, 3, 15), 0), Contributors = ''Bob'', Spend = 30,
               Contribution = 0, Balance = 70\<rparr>]\<rparr>"

definition two_contributions :: dataframe where
  "two_contributions =
     \<lparr>columns = required_columns,
      rows = [\<lparr>Date = ((2024, 1, 1), 0), Contributors = ''Alice'', Spend = 0,
               Contribution = 10, Balance = 10\<rparr>,
              \<lparr>Date = ((2024, 1, 2), 0), Contributors = ''Bob'', Spend = 0,
               Contribution = 20, Balance = 30\<rparr>]\<rparr>"

definition big_df :: dataframe where
  "big_df =
     \<lparr>columns = required_columns,
      rows = [\<lparr>Date = ((2024, 1, 1), 0), Contributors = ''Alice'', Spend = 0,
               Contribution = 5000000000000000000, Balance = 5000000000000000000\<rparr>,
              \<lparr>Date = ((2024, 1, 2), 0), Contributors = ''Alice'', Spend = 0,
               Contribution = 5000000000000000000, Balance = 0\<rparr>]\<rparr>"

definition example_files :: files where
  "example_files = Map.empty(''/fund/Snacks_Fund.xlsx'' \<mapsto> to_excel example_df)"

definition headers_only :: "string list \<Rightarrow> files" where
  "headers_only cols =
     Map.empty(''/fund/Snacks_Fund.xlsx'' \<mapsto> \<lparr>columns = cols, rows = []\<rparr>)"

definition no_text_dates :: "string \<Rightarrow> timestamp option" where
  "no_text_dates s = None"

definition default_widgets :: widgets where
  "default_widgets =
     \<lparr>date_input = (\<lambda>label default. default),
      selectbox = (\<lambda>label options. hd options),
      button = (\<lambda>label. False)\<rparr>"

section \<open>Properties\<close>

subsection \<open>Loading\<close>

lemma check_columns_find: "check_columns req cols = find (\<lambda>c. c \<notin> set cols) req"
  by (induction req) simp_all

lemma check_columns_None: "check_columns req cols = None \<longleftrightarrow> set req \<subseteq> set cols"
  by (induction req) auto

lemma map_date_fields [simp]:
  "Date (map_date f r) = f (Date r)"
  "Contributors (map_date f r) = Contributors r"
  "Spend (map_date f r) = Spend r"
  "Contribution (map_date f r) = Contribution r"
  "Balance (map_date f r) = Balance r"
  by (simp_all add: map_date_def)

lemma map_date_Stamp_back:
  "map_date (\<lambda>c. the (to_datetime_cell parse c)) (map_date Stamp r) = (r :: timestamp row)"
  by (simp add: map_date_def)

lemma to_datetime_to_excel: "to_datetime parse (to_excel df) = Some df"
  by (cases df) (simp add: to_datetime_def to_excel_def comp_def map_date_Stamp_back)

lemma load_Inr:
  assumes "load parse fs p = Inr df"
  obtains sh where "fs p = Some sh" "check_columns required_columns (columns sh) = None"
    "to_datetime parse sh = Some df"
  using assms by (auto simp: load_def split: option.splits)

lemma to_datetime_Some:
  assumes "to_datetime parse sh = Some df"
  shows "columns df = columns sh"
    and "map Balance (rows df) = map Balance (rows sh)"
    and "length (rows df) = length (rows sh)"
  using assms by (auto simp: to_datetime_def split: if_splits)

lemma main_load_error:
  "load parse fs (file_path dir) = Inl e \<Longrightarrow> main parse w dir fs = ([ErrorMessage e], fs)"
  by (simp add: main_def)

lemma example_load: "load no_text_dates example_files (file_path ''/fund'') = Inr example_df"
proof -
  have f: "example_files (file_path ''/fund'') = Some (to_excel example_df)"
    by (simp add: example_files_def file_path_def path_join_def)
  have c: "check_columns required_columns (columns (to_excel example_df)) = None"
    by (simp add: to_excel_def example_df_def required_columns_def)
  show ?thesis
    by (simp add: load_def f c to_datetime_to_excel)
qed

text \<open>
  C4, as the code has it. When the header lacks one or more of the required columns, the
  run stops at the first of them in the order Date, Contributors, Spend, Contribution,
  Balance: the page shows one error that names that column and nothing else (no metric,
  no chart), and no file is written. A header that lacks only Balance gives the error
  that names Balance.
\<close>

theorem first_missing_column_reported:
  assumes "fs (file_path dir) = Some sh"
    and "\<not> set required_columns \<subseteq> set (columns sh)"
  shows "\<exists>col. find (\<lambda>c. c \<notin> set (columns sh)) required_columns = Some col
           \<and> load parse fs (file_path dir) = Inl (ColumnNotFound col)
           \<and> main parse w dir fs = ([ErrorMessage (ColumnNotFound col)], fs)
           \<and> (set (butlast required_columns) \<subseteq> set (columns sh) \<longrightarrow> col = ''Balance'')"
proof -
  from assms(2) obtain col where c: "check_columns required_columns (columns sh) = Some col"
    using check_columns_None [of required_columns "columns sh"]
    by (cases "check_columns required_columns (columns sh)") auto
  then have f: "find (\<lambda>c. c \<notin> set (columns sh)) required_columns = Some col"
    by (simp add: check_columns_find)
  have l: "load parse fs (file_path dir) = Inl (ColumnNotFound col)"
    using assms(1) c by (simp add: load_def)
  have b: "col = ''Balance''" if "set (butlast required_columns) \<subseteq> set (columns sh)"
    using that f by (simp add: required_columns_def split: if_splits)
  show ?thesis using f l main_load_error [OF l] b by blast
qed

text \<open>A header without Balance: the run shows the error that names Balance.\<close>

theorem first_missing_column_reported_witness:
  "main no_text_dates default_widgets ''/fund''
     (headers_only [''Date'', ''Contributors'', ''Spend'', ''Contribution''])
   = ([ErrorMessage (ColumnNotFound ''Balance'')],
      headers_only [''Date'', ''Contributors'', ''Spend'', ''Contribution''])"
proof -
  let ?cols = "[''Date'', ''Contributors'', ''Spend'', ''Contribution'']"
  have 1: "headers_only ?cols (file_path ''/fund'') = Some \<lparr>columns = ?cols, rows = []\<rparr>"
    by (simp add: headers_only_def file_path_def path_join_def)
  have 2: "\<not> set required_columns
      \<subseteq> set (columns \<lparr>columns = ?cols, rows = ([] :: raw_date row list)\<rparr>)"
    by (simp add: required_columns_def)
  have 3: "set (butlast required_columns)
      \<subseteq> set (columns \<lparr>columns = ?cols, rows = ([] :: raw_date row list)\<rparr>)"
    by (simp add: required_columns_def)
  show ?thesis
    using first_missing_column_reported
        [of "headers_only ?cols" "''/fund''" "\<lparr>columns = ?cols, rows = []\<rparr>"
            no_text_dates default_widgets, OF 1 2] 3
    by auto
qed

text \<open>
  A header with Date and Contributors only lacks Spend, Contribution and Balance; the
  run's only message names Spend, and no message names Contribution or Balance.
\<close>

theorem all_missing_columns_counterexample:
  "''Contribution'' \<notin> set [''Date'', ''Contributors'']
   \<and> ''Balance'' \<notin> set [''Date'', ''Contributors'']
   \<and> fst (main no_text_dates default_widgets ''/fund'' (headers_only [''Date'', ''Contributors'']))
       = [ErrorMessage (ColumnNotFound ''Spend'')]"
  by (simp add: main_def load_def headers_only_def file_path_def path_join_def
      required_columns_def)

subsection \<open>Summary metrics\<close>

lemma wrap64_id: "- (2 ^ 63) \<le> n \<Longrightarrow> n < 2 ^ 63 \<Longrightarrow> wrap64 n = n"
  by (simp add: wrap64_def)

lemma whole_Ints: "whole x \<longleftrightarrow> x \<in> \<int>"
  unfolding whole_def by (metis Ints_of_int of_int_floor)

lemma whole_sum_list: "list_all whole xs \<Longrightarrow> whole (sum_list xs)"
  by (induction xs) (simp_all add: whole_Ints)

text \<open>A sum that lies in the 64-bit range is exact, whatever the dtype of the column.\<close>

lemma column_sum_exact:
  assumes "set xs \<subseteq> set col" and "in_int64 (sum_list xs)"
  shows "column_sum col xs = sum_list xs"
proof (cases "int64_dtype col")
  case False
  then show ?thesis by (simp add: column_sum_def)
next
  case True
  with assms(1) have "list_all whole xs"
    by (auto simp: int64_dtype_def list_all_iff)
  then have "sum_list xs \<in> \<int>"
    using whole_sum_list [of xs] by (simp add: whole_Ints)
  then have w: "rat_of_int \<lfloor>sum_list xs\<rfloor> = sum_list xs"
    by (rule of_int_floor)
  from assms(2) have "- (2 ^ 63) \<le> \<lfloor>sum_list xs\<rfloor>" "\<lfloor>sum_list xs\<rfloor> < 2 ^ 63"
    by (simp_all add: in_int64_def le_floor_iff floor_less_iff)
  then have "wrap64 \<lfloor>sum_list xs\<rfloor> = \<lfloor>sum_list xs\<rfloor>"
    by (rule wrap64_id)
  with True w show ?thesis by (simp add: column_sum_def)
qed

lemma column_sum_selection:
  assumes "in_int64 (sum_list (map f (filter P xs)))"
  shows "column_sum (map f xs) (map f (filter P xs)) = sum_list (map f (filter P xs))"
  using assms by (intro column_sum_exact) auto

lemma column_sum_whole:
  assumes "in_int64 (sum_list (map f xs))"
  shows "column_sum (map f xs) (map f xs) = sum_list (map f xs)"
  using assms by (intro column_sum_exact) auto

text \<open>
  C3, as the code has it. For every Ledger whose sum of the \<open>Contribution\<close> field and
  sum of the \<open>Spend\<close> field lie in the range of 64-bit integers (from \<^verbatim>\<open>-2^63\<close> to
  \<^verbatim>\<open>2^63 - 1\<close>), totalContributions is the sum of the \<open>Contribution\<close> field over all
  rows and totalSpend is the sum of the \<open>Spend\<close> field over all rows: each metric adds
  up the field of the row at every position of the frame. Beyond that range the sum of a
  column of whole numbers wraps.
\<close>

theorem totals_sum_over_all_rows:
  assumes "in_int64 (\<Sum>i = 0..<length (rows df). Contribution (rows df ! i))"
    and "in_int64 (\<Sum>i = 0..<length (rows df). Spend (rows df ! i))"
  shows "total_contributions (display_summary_metrics df)
           = (\<Sum>i = 0..<length (rows df). Contribution (rows df ! i))
         \<and> total_spending (display_summary_metrics df)
           = (\<Sum>i = 0..<length (rows df). Spend (rows df ! i))"
proof -
  have nth: "sum_list (map f (rows df)) = (\<Sum>i = 0..<length (rows df). f (rows df ! i))"
    for f :: "timestamp row \<Rightarrow> rat"
    by (simp add: sum_list_sum_nth)
  from assms have "in_int64 (sum_list (map Contribution (rows df)))"
    "in_int64 (sum_list (map Spend (rows df)))"
    by (simp_all add: nth)
  then show ?thesis
    by (simp add: display_summary_metrics_def column_sum_whole nth)
qed

text \<open>The example ledger: the sums 100 and 30 lie in the range, and they are the totals.\<close>

theorem totals_sum_over_all_rows_witness:
  "in_int64 100 \<and> in_int64 30
   \<and> total_contributions (display_summary_metrics example_df) = 100
   \<and> total_spending (display_summary_metrics example_df) = 30"
proof -
  have sums: "(\<Sum>i = 0..<length (rows example_df). Contribution (rows example_df ! i)) = 100"
    "(\<Sum>i = 0..<length (rows example_df). Spend (rows example_df ! i)) = 30"
    by (simp_all add: sum_list_sum_nth [symmetric] example_df_def)
  have r: "in_int64 100" "in_int64 30"
    by (simp_all add: in_int64_def)
  from totals_sum_over_all_rows [of example_df] sums r show ?thesis
    by simp
qed

text \<open>
  Two contributions of 5000000000000000000: the column is a column of whole numbers, the
  sum over its rows is 10000000000000000000, and the metric shows the wrapped sum.
\<close>

theorem totals_wrap_counterexample:
  "sum_list (map Contribution (rows big_df)) = 10000000000000000000
   \<and> total_contributions (display_summary_metrics big_df) = - 8446744073709551616"
  by (simp add: display_summary_metrics_def column_sum_def int64_dtype_def whole_def
      in_int64_def wrap64_def big_df_def)

lemma last_map_Balance: "xs \<noteq> [] \<Longrightarrow> Balance (last xs) = last (map Balance xs)"
  by (simp add: last_map)

text \<open>
  C1. For every Ledger that loads, the run shows the summary metrics of the unfiltered
  frame first, whatever the widgets select: currentBalance is the \<open>Balance\<close> of the last
  row of the sheet in source order, and 0 when the sheet has no rows. The filters come
  after it in the script and work on a copy, so no selection changes it.
\<close>

theorem current_balance_unaffected_by_filters:
  assumes "load parse fs (file_path dir) = Inr df"
  shows "\<exists>sh rest. fs (file_path dir) = Some sh
           \<and> fst (main parse w dir fs) = SummaryMetrics (display_summary_metrics df) # rest
           \<and> current_balance (display_summary_metrics df)
               = (if rows sh = [] then 0 else Balance (last (rows sh)))
           \<and> current_balance (display_summary_metrics df)
               = (if rows df = [] then 0 else Balance (last (rows df)))"
proof -
  from assms obtain sh where sh: "fs (file_path dir) = Some sh" "to_datetime parse sh = Some df"
    by (rule load_Inr)
  have shown: "fst (main parse w dir fs)
      = SummaryMetrics (display_summary_metrics df) # charts df @ fst (transaction_details w dir fs df)"
    using assms by (simp add: main_def split: prod.splits)
  have own: "current_balance (display_summary_metrics df)
      = (if rows df = [] then 0 else Balance (last (rows df)))"
    by (simp add: display_summary_metrics_def empty_frame_def)
  have src: "(if rows df = [] then 0 else Balance (last (rows df)))
      = (if rows sh = [] then 0 else Balance (last (rows sh)))"
  proof (cases "rows sh = []")
    case True
    then show ?thesis using to_datetime_Some(3) [OF sh(2)] by simp
  next
    case False
    moreover from False have "rows df \<noteq> []" using to_datetime_Some(3) [OF sh(2)] by auto
    ultimately show ?thesis
      using to_datetime_Some(2) [OF sh(2)] by (simp add: last_map_Balance)
  qed
  show ?thesis using sh(1) shown own src by simp
qed

text \<open>The example ledger loads, and its run shows a current balance of 70.\<close>

theorem current_balance_unaffected_by_filters_witness:
  "load no_text_dates example_files (file_path ''/fund'') = Inr example_df
   \<and> (\<exists>rest. fst (main no_text_dates default_widgets ''/fund'' example_files)
         = SummaryMetrics (display_summary_metrics example_df) # rest)
   \<and> current_balance (display_summary_metrics example_df) = 70"
proof -
  have l: "load no_text_dates example_files (file_path ''/fund'') = Inr example_df"
    by (rule example_load)
  have "rows example_df \<noteq> [] \<and> Balance (last (rows example_df)) = 70"
    by (simp add: example_df_def)
  with current_balance_unaffected_by_filters [OF l, of default_widgets] l show ?thesis
    by auto
qed

text \<open>
  C5. The two contributor counts of the source disagree: there is a Ledger for which the
  number of distinct contributors over all rows (the launcher-embedded variant) differs
  from the number of distinct contributors over the rows with a positive contribution
  (the dashboard), so the two counting functions are not the same function.
\<close>

theorem contributor_counts_disagree:
  "(\<exists>df. num_contributors df \<noteq> valid_contributors (display_summary_metrics df))
   \<and> num_contributors \<noteq> (\<lambda>df. valid_contributors (display_summary_metrics df))"
proof -
  have ex: "num_contributors example_df \<noteq> valid_contributors (display_summary_metrics example_df)"
    by (simp add: num_contributors_def display_summary_metrics_def nunique_def example_df_def)
  then have "num_contributors \<noteq> (\<lambda>df. valid_contributors (display_summary_metrics df))"
    by metis
  with ex show ?thesis by blast
qed

subsection \<open>Contributions by contributor\<close>

lemma groupby_sum_set:
  "(k, v) \<in> set (groupby_sum col key val xs)
     \<longleftrightarrow> k \<in> set (map key xs)
         \<and> v = column_sum col (map val (filter (\<lambda>r. key r = k) xs))"
  by (auto simp: groupby_sum_def)

lemma groupby_sum_keys: "map fst (groupby_sum col key val xs) = sort (remdups (map key xs))"
  by (simp add: groupby_sum_def comp_def)

lemma sum_list_pos:
  fixes f :: "'a \<Rightarrow> rat"
  shows "xs \<noteq> [] \<Longrightarrow> \<forall>x \<in> set xs. 0 < f x \<Longrightarrow> 0 < sum_list (map f xs)"
proof (induction xs)
  case Nil
  then show ?case by simp
next
  case (Cons x xs)
  show ?case
  proof (cases "xs = []")
    case True
    with Cons.prems show ?thesis by simp
  next
    case False
    with Cons have "0 < sum_list (map f xs)" by simp
    moreover from Cons.prems have "0 < f x" by simp
    ultimately show ?thesis by simp
  qed
qed

lemma sum_list_positive_part:
  fixes f :: "'a \<Rightarrow> rat"
  shows "\<forall>x \<in> set xs. 0 \<le> f x
    \<Longrightarrow> sum_list (map f (filter (\<lambda>x. Q x) (filter (\<lambda>x. 0 < f x) xs)))
        = sum_list (map f (filter Q xs))"
  by (induction xs) auto

text \<open>
  The sum of a contributor's group. In the dashboard the group holds the contributor's
  rows with a positive contribution; when no contribution is negative and the
  contributor's total lies in the 64-bit range, that sum is the contributor's total.
\<close>

lemma dashboard_group_sum:
  assumes nonneg: "\<forall>r \<in> set (rows df). 0 \<le> Contribution r"
    and range: "in_int64 (contribution_of df k)"
  shows "column_sum (map Contribution (rows df))
           (map Contribution
             (filter (\<lambda>r. Contributors r = k) (filter (\<lambda>r. 0 < Contribution r) (rows df))))
         = contribution_of df k"
proof -
  let ?K = "filter (\<lambda>r. Contributors r = k) (filter (\<lambda>r. 0 < Contribution r) (rows df))"
  have total: "sum_list (map Contribution ?K) = contribution_of df k"
    unfolding contribution_of_def using nonneg by (rule sum_list_positive_part)
  have sub: "set (map Contribution ?K) \<subseteq> set (map Contribution (rows df))"
    by auto
  have "in_int64 (sum_list (map Contribution ?K))"
    unfolding total by (rule range)
  with sub have "column_sum (map Contribution (rows df)) (map Contribution ?K)
      = sum_list (map Contribution ?K)"
    by (rule column_sum_exact)
  with total show ?thesis by (simp only:)
qed

lemma launcher_group_sum:
  assumes "in_int64 (contribution_of df k)"
  shows "column_sum (map Contribution (rows df))
           (map Contribution (filter (\<lambda>r. Contributors r = k) (rows df)))
         = contribution_of df k"
  using assms unfolding contribution_of_def by (rule column_sum_selection)

lemma contrib_by_person_set:
  assumes nonneg: "\<forall>r \<in> set (rows df). 0 \<le> Contribution r"
    and range: "\<forall>k \<in> set (map Contributors (rows df)). in_int64 (contribution_of df k)"
  shows "(k, v) \<in> set (contrib_by_person df)
     \<longleftrightarrow> k \<in> set (map Contributors (rows df)) \<and> v = contribution_of df k \<and> 0 < v"
proof -
  let ?P = "filter (\<lambda>r. 0 < Contribution r) (rows df)"
  let ?K = "filter (\<lambda>r. Contributors r = k) ?P"
  have sub: "k \<in> set (map Contributors (rows df))" if "k \<in> set (map Contributors ?P)"
    using that by auto
  have total: "sum_list (map Contribution ?K) = contribution_of df k"
    unfolding contribution_of_def using nonneg by (rule sum_list_positive_part)
  have pos: "k \<in> set (map Contributors ?P) \<longleftrightarrow> 0 < contribution_of df k"
  proof
    assume "k \<in> set (map Contributors ?P)"
    then have "?K \<noteq> []" by (auto simp: filter_empty_conv)
    moreover have "\<forall>r \<in> set ?K. 0 < Contribution r" by simp
    ultimately have "0 < sum_list (map Contribution ?K)" by (rule sum_list_pos)
    then show "0 < contribution_of df k" by (simp only: total)
  next
    assume "0 < contribution_of df k"
    then have "?K \<noteq> []" unfolding total [symmetric] by auto
    then show "k \<in> set (map Contributors ?P)" by (auto simp: filter_empty_conv)
  qed
  have group: "column_sum (map Contribution (rows df)) (map Contribution ?K)
      = contribution_of df k" if "k \<in> set (map Contributors (rows df))"
    using nonneg range that by (intro dashboard_group_sum) blast+
  show ?thesis
  proof
    assume "(k, v) \<in> set (contrib_by_person df)"
    then have k: "k \<in> set (map Contributors ?P)"
      and v: "v = column_sum (map Contribution (rows df)) (map Contribution ?K)"
      and "0 < v"
      by (simp_all add: contrib_by_person_def groupby_sum_set)
    with sub group show "k \<in> set (map Contributors (rows df)) \<and> v = contribution_of df k \<and> 0 < v"
      by simp
  next
    assume r: "k \<in> set (map Contributors (rows df)) \<and> v = contribution_of df k \<and> 0 < v"
    then have "k \<in> set (map Contributors ?P)" using pos by simp
    moreover from r group
    have "v = column_sum (map Contribution (rows df)) (map Contribution ?K)" by simp
    ultimately show "(k, v) \<in> set (contrib_by_person df)"
      using r by (simp add: contrib_by_person_def groupby_sum_set)
  qed
qed

lemma sorted_wrt_map_fst_filter:
  "sorted_wrt (<) (map fst xs) \<Longrightarrow> sorted_wrt (<) (map fst (filter P xs))"
  by (induction xs) auto

lemma contrib_by_person_sorted: "sorted_wrt (<) (map fst (contrib_by_person df))"
  unfolding contrib_by_person_def
  by (rule sorted_wrt_map_fst_filter) (simp add: groupby_sum_keys strict_sorted_iff)

lemma sort_values_desc_set: "set (sort_values_desc xs) = set xs"
  by (simp add: sort_values_desc_def)

lemma sort_values_desc_sorted: "sorted (rev (map snd (sort_values_desc xs)))"
  by (simp add: sort_values_desc_def rev_map [symmetric])

lemma sort_values_desc_distinct:
  "distinct (map fst (sort_values_desc xs)) \<longleftrightarrow> distinct (map fst xs)"
  by (simp add: sort_values_desc_def distinct_map)

lemma launcher_set:
  assumes "\<forall>k \<in> set (map Contributors (rows df)). in_int64 (contribution_of df k)"
  shows "(k, v) \<in> set (contrib_by_person_launcher df)
     \<longleftrightarrow> k \<in> set (map Contributors (rows df)) \<and> v = contribution_of df k"
  using assms launcher_group_sum [of df k]
  by (auto simp: contrib_by_person_launcher_def sort_values_desc_set groupby_sum_set)

lemma launcher_distinct: "distinct (map fst (contrib_by_person_launcher df))"
  by (simp add: contrib_by_person_launcher_def sort_values_desc_distinct groupby_sum_keys)

text \<open>
  C6, as the code has it. For every Ledger whose contributions are not negative and in
  which every contributor's total lies in the range of 64-bit integers, the dashboard's
  contributionsByContributor is the mapping from each contributor to the sum of their
  \<open>Contribution\<close> values, with the contributors whose total is zero left out, and its
  entries are in ascending order of the contributor's name (not in descending order of
  the sum). The launcher-embedded variant has one entry for every contributor, those
  with a zero total too, in descending order of the sum.
\<close>

theorem contributions_by_contributor_variants:
  assumes "\<forall>r \<in> set (rows df). 0 \<le> Contribution r"
    and "\<forall>k \<in> set (map Contributors (rows df)). in_int64 (contribution_of df k)"
  shows "((k, v) \<in> set (contrib_by_person df)
            \<longleftrightarrow> k \<in> set (map Contributors (rows df)) \<and> v = contribution_of df k \<and> 0 < v)
         \<and> sorted_wrt (<) (map fst (contrib_by_person df))
         \<and> ((k, v) \<in> set (contrib_by_person_launcher df)
            \<longleftrightarrow> k \<in> set (map Contributors (rows df)) \<and> v = contribution_of df k)
         \<and> distinct (map fst (contrib_by_person_launcher df))
         \<and> sorted (rev (map snd (contrib_by_person_launcher df)))"
  using contrib_by_person_set [OF assms] contrib_by_person_sorted launcher_set [OF assms(2)]
    launcher_distinct
    sort_values_desc_sorted
      [of "groupby_sum (map Contribution (rows df)) Contributors Contribution (rows df)"]
  by (simp add: contrib_by_person_launcher_def)

text \<open>
  In the example ledger Alice has contributed 100 and Bob nothing, both totals in the
  range: the dashboard lists Alice with 100, the launcher-embedded variant lists Bob with
  0 as well.
\<close>

theorem contributions_by_contributor_variants_witness:
  "map Contribution (rows example_df) = [100, 0]
   \<and> map Contributors (rows example_df) = [''Alice'', ''Bob'']
   \<and> contribution_of example_df ''Alice'' = 100 \<and> in_int64 100
   \<and> contribution_of example_df ''Bob'' = 0 \<and> in_int64 0
   \<and> (''Alice'', 100) \<in> set (contrib_by_person example_df)
   \<and> (''Bob'', 0) \<notin> set (contrib_by_person example_df)
   \<and> (''Bob'', 0) \<in> set (contrib_by_person_launcher example_df)"
proof -
  have a: "contribution_of example_df ''Alice'' = 100" "contribution_of example_df ''Bob'' = 0"
    "map Contributors (rows example_df) = [''Alice'', ''Bob'']"
    "map Contribution (rows example_df) = [100, 0]"
    by (simp_all add: contribution_of_def example_df_def)
  have i: "in_int64 100" "in_int64 0"
    by (simp_all add: in_int64_def)
  have h: "\<forall>r \<in> set (rows example_df). 0 \<le> Contribution r"
    by (simp add: example_df_def)
  have g: "\<forall>k \<in> set (map Contributors (rows example_df)). in_int64 (contribution_of example_df k)"
    using a i by simp
  show ?thesis
    using contributions_by_contributor_variants [OF h g, of "''Alice''" 100]
      contributions_by_contributor_variants [OF h g, of "''Bob''" 0] a i
    by simp
qed

text \<open>
  Two contributions, 10 by Alice and 20 by Bob: the dashboard lists Alice before Bob, so
  the sums are not in descending order. In the example ledger Bob's total is zero and the
  launcher-embedded variant lists him. Two contributions of 5000000000000000000 by
  Alice: her total is 10000000000000000000, the sum of her group wraps below zero and the
  dashboard lists nobody.
\<close>

theorem contributions_by_contributor_counterexample:
  "contrib_by_person two_contributions = [(''Alice'', 10), (''Bob'', 20)]
   \<and> \<not> sorted (rev (map snd (contrib_by_person two_contributions)))
   \<and> contrib_by_person_launcher example_df = [(''Alice'', 100), (''Bob'', 0)]
   \<and> contribution_of example_df ''Bob'' = 0
   \<and> contribution_of big_df ''Alice'' = 10000000000000000000
   \<and> contrib_by_person big_df = []"
  by (simp add: contrib_by_person_def contrib_by_person_launcher_def groupby_sum_def
      sort_values_desc_def two_contributions_def example_df_def big_df_def
      contribution_of_def column_sum_def int64_dtype_def whole_def in_int64_def wrap64_def)

subsection \<open>Monthly flows\<close>

lemma month_label_strict_mono: "i < j \<Longrightarrow> month_label i < month_label j"
proof -
  assume less: "i < j"
  then have le: "i div 12 \<le> j div 12"
    by (simp add: zdiv_mono1)
  have "i mod 12 < j mod 12" if "i div 12 = j div 12"
  proof -
    have "i mod 12 = i - 12 * (i div 12)" "j mod 12 = j - 12 * (j div 12)"
      by (simp_all add: minus_mult_div_eq_mod)
    with that less show ?thesis by simp
  qed
  with le show ?thesis
    by (auto simp: month_label_def less_prod_def)
qed

lemma month_label_inj: "month_label i = month_label j \<longleftrightarrow> i = j"
  using month_label_strict_mono [of i j] month_label_strict_mono [of j i]
  by (cases i j rule: linorder_cases) auto

lemma month_label_index:
  assumes "snd (month_of r) \<in> {1..12}"
  shows "month_label (month_index (Date r)) = month_of r"
proof -
  obtain y m d ns where t: "Date r = ((y, m, d), ns)"
    by (metis prod.exhaust)
  with assms have m: "1 \<le> m" "m \<le> 12"
    by (simp_all add: month_of_def)
  have "y * 12 + int m - 1 = (int m - 1) + y * 12"
    by simp
  moreover from m have "(int m - 1) div 12 = 0" "(int m - 1) mod 12 = int m - 1"
    by simp_all
  ultimately have "(y * 12 + int m - 1) div 12 = y" "(y * 12 + int m - 1) mod 12 = int m - 1"
    by (simp_all only: div_mult_self3 mod_mult_self3) simp_all
  with m show ?thesis
    by (simp add: month_label_def month_index_def month_of_def t)
qed

lemma month_of_row:
  assumes "snd (month_of r) \<in> {1..12}"
  shows "month_index (Date r) = i \<longleftrightarrow> month_of r = month_label i"
  using month_label_index [OF assms] month_label_inj [of "month_index (Date r)" i] by simp

lemma sorted_wrt_map_upto:
  assumes "\<And>i j. i < j \<Longrightarrow> f i < f j"
  shows "sorted_wrt (<) (map f [lo..hi])"
proof -
  have "sorted_wrt (<) [lo..hi]"
    by (simp add: strict_sorted_iff)
  then show ?thesis
    unfolding sorted_wrt_map by (rule sorted_wrt_mono_rel [rotated]) (simp add: assms)
qed

lemma month_in_span:
  assumes "r \<in> set (rows df)"
  shows "first_month df \<le> month_index (Date r)" "month_index (Date r) \<le> last_month df"
  using assms by (simp_all add: first_month_def last_month_def)

lemma monthly_data_labels:
  "map fst (monthly_data df)
     = (if rows df = [] then [] else map month_label [first_month df..last_month df])"
  by (simp add: monthly_data_def comp_def)

lemma monthly_data_sorted: "sorted_wrt (<) (map fst (monthly_data df))"
  unfolding monthly_data_labels
  by (simp add: sorted_wrt_map_upto month_label_strict_mono)

lemma monthly_data_sums:
  assumes valid: "\<forall>r \<in> set (rows df). snd (month_of r) \<in> {1..12}"
    and range: "\<forall>ym.
        in_int64 (sum_list (map Contribution (filter (\<lambda>r. month_of r = ym) (rows df))))
        \<and> in_int64 (sum_list (map Spend (filter (\<lambda>r. month_of r = ym) (rows df))))"
    and row: "(ym, c, s) \<in> set (monthly_data df)"
  shows "c = sum_list (map Contribution (filter (\<lambda>r. month_of r = ym) (rows df)))"
    and "s = sum_list (map Spend (filter (\<lambda>r. month_of r = ym) (rows df)))"
proof -
  from row obtain i where i: "ym = month_label i"
    "c = column_sum (map Contribution (rows df))
           (map Contribution (filter (\<lambda>r. month_index (Date r) = i) (rows df)))"
    "s = column_sum (map Spend (rows df))
           (map Spend (filter (\<lambda>r. month_index (Date r) = i) (rows df)))"
    by (auto simp: monthly_data_def split: if_splits)
  have same: "filter (\<lambda>r. month_index (Date r) = i) (rows df)
      = filter (\<lambda>r. month_of r = ym) (rows df)"
  proof (rule filter_cong)
    fix r assume "r \<in> set (rows df)"
    with valid have "snd (month_of r) \<in> {1..12}" by blast
    then show "(month_index (Date r) = i) = (month_of r = ym)"
      unfolding i(1) by (rule month_of_row)
  qed simp
  from range have "in_int64 (sum_list (map Contribution (filter (\<lambda>r. month_of r = ym) (rows df))))"
    and "in_int64 (sum_list (map Spend (filter (\<lambda>r. month_of r = ym) (rows df))))"
    by blast+
  then show "c = sum_list (map Contribution (filter (\<lambda>r. month_of r = ym) (rows df)))"
    and "s = sum_list (map Spend (filter (\<lambda>r. month_of r = ym) (rows df)))"
    unfolding i(2,3) same by (simp_all only: column_sum_selection)
qed

lemma monthly_data_present:
  assumes valid: "\<forall>r \<in> set (rows df). snd (month_of r) \<in> {1..12}"
    and r: "r \<in> set (rows df)"
  shows "month_of r \<in> set (map fst (monthly_data df))"
proof -
  from r have "rows df \<noteq> []" by auto
  moreover have "month_index (Date r) \<in> set [first_month df..last_month df]"
    using month_in_span [OF r] by simp
  then have "month_label (month_index (Date r)) \<in> set (map month_label [first_month df..last_month df])"
    by (simp del: set_upto)
  ultimately show ?thesis
    using month_label_index [of r] valid r by (simp add: monthly_data_labels)
qed

text \<open>
  C7, as the code has it (pandas before version 3; from version 3 on line 65 raises).
  For every Ledger in which every month's sum of \<open>Contribution\<close> and sum of \<open>Spend\<close>
  lie in the range of 64-bit integers, monthlyFlows has exactly one row for every
  calendar month from the earliest to the latest month of the Ledger's dates, the months
  in between in which no transaction occurs included (their sums are 0, the sum of no
  rows); each row holds the sum of \<open>Contribution\<close> and the sum of \<open>Spend\<close> of the
  rows of that month, every month that occurs in the Ledger has its row, and the rows are
  in chronological order. An empty Ledger gives no rows.
\<close>

theorem monthly_data_spans_months:
  assumes "\<forall>r \<in> set (rows df). snd (month_of r) \<in> {1..12}"
    and "\<forall>ym.
        in_int64 (sum_list (map Contribution (filter (\<lambda>r. month_of r = ym) (rows df))))
        \<and> in_int64 (sum_list (map Spend (filter (\<lambda>r. month_of r = ym) (rows df))))"
  shows "map fst (monthly_data df)
           = (if rows df = [] then [] else map month_label [first_month df..last_month df])
         \<and> sorted_wrt (<) (map fst (monthly_data df))
         \<and> (\<forall>r \<in> set (rows df). month_of r \<in> set (map fst (monthly_data df)))
         \<and> (\<forall>(ym, c, s) \<in> set (monthly_data df).
               c = sum_list (map Contribution (filter (\<lambda>r. month_of r = ym) (rows df)))
               \<and> s = sum_list (map Spend (filter (\<lambda>r. month_of r = ym) (rows df))))"
  using monthly_data_labels monthly_data_sorted monthly_data_present [OF assms(1)]
    monthly_data_sums [OF assms]
  by (auto simp del: set_map)

text \<open>
  A ledger with one row in January and one in March 2024: two months occur in it, and
  the result has three rows, the middle one for February with both sums 0. A ledger with
  two contributions of 5000000000000000000 in January 2024: the month's contributions
  add up to 10000000000000000000, and its row holds the wrapped sum.
\<close>

theorem monthly_data_gap_counterexample:
  "remdups (map month_of (rows gap_df)) = [(2024, 1), (2024, 3)]
   \<and> monthly_data gap_df = [((2024, 1), 100, 0), ((2024, 2), 0, 0), ((2024, 3), 0, 30)]
   \<and> remdups (map month_of (rows big_df)) = [(2024, 1)]
   \<and> sum_list (map Contribution (rows big_df)) = 10000000000000000000
   \<and> monthly_data big_df = [((2024, 1), - 8446744073709551616, 0)]"
  by (simp add: monthly_data_def first_month_def last_month_def gap_df_def big_df_def
      month_index_def month_label_def month_of_def upto_rec1 column_sum_def int64_dtype_def
      whole_def in_int64_def wrap64_def)

text \<open>
  The same ledger: its months are valid, its amounts are 100, 0, 0 and 30, and its rows
  run from January to March.
\<close>

theorem monthly_data_spans_months_witness:
  "map (\<lambda>r. snd (month_of r)) (rows gap_df) = [1, 3]
   \<and> map Contribution (rows gap_df) = [100, 0] \<and> map Spend (rows gap_df) = [0, 30]
   \<and> in_int64 100 \<and> in_int64 30 \<and> in_int64 0
   \<and> map fst (monthly_data gap_df) = [(2024, 1), (2024, 2), (2024, 3)]
   \<and> first_month gap_df = 24288 \<and> last_month gap_df = 24290"
proof -
  have v: "\<forall>r \<in> set (rows gap_df). snd (month_of r) \<in> {1..12}"
    by (simp add: gap_df_def month_of_def)
  have i: "in_int64 100" "in_int64 30" "in_int64 0"
    by (simp_all add: in_int64_def)
  have g: "\<forall>ym.
      in_int64 (sum_list (map Contribution (filter (\<lambda>r. month_of r = ym) (rows gap_df))))
      \<and> in_int64 (sum_list (map Spend (filter (\<lambda>r. month_of r = ym) (rows gap_df))))"
    using i by (simp add: gap_df_def)
  have s: "first_month gap_df = 24288" "last_month gap_df = 24290" "rows gap_df \<noteq> []"
    "map (\<lambda>r. snd (month_of r)) (rows gap_df) = [1, 3]"
    "map Contribution (rows gap_df) = [100, 0]" "map Spend (rows gap_df) = [0, 30]"
    by (simp_all add: first_month_def last_month_def gap_df_def month_index_def month_of_def)
  have l: "map month_label [24288..24290] = [(2024, 1), (2024, 2), (2024, 3)]"
    by (simp add: month_label_def upto_rec1)
  from monthly_data_spans_months [OF v g] s l i show ?thesis
    by simp
qed

subsection \<open>Filters\<close>

lemma filter_dates_rows:
  "rows (filter_dates s e df)
     = filter (\<lambda>r. s \<le> date_of (Date r) \<and> date_of (Date r) \<le> e) (rows df)"
  by (simp add: filter_dates_def)

lemma filter_contributor_rows:
  "rows (filter_contributor c df)
     = filter (\<lambda>r. c \<noteq> ''All'' \<longrightarrow> Contributors r = c) (rows df)"
  by (simp add: filter_contributor_def)

lemma filter_type_rows:
  "rows (filter_type t df) =
     filter (\<lambda>r. (t = ''Contribution'' \<longrightarrow> Contribution r > 0)
                \<and> (t = ''Spending'' \<longrightarrow> Spend r > 0)) (rows df)"
  by (simp add: filter_type_def)

lemma filter_columns:
  "columns (filter_dates s e df) = columns df"
  "columns (filter_contributor c df) = columns df"
  "columns (filter_type t df) = columns df"
  by (simp_all add: filter_dates_def filter_contributor_def filter_type_def)

text \<open>
  C2. For every Ledger and every filter specification, the FilteredView holds exactly
  the rows of the Ledger that satisfy all active predicates, in the Ledger's order: a
  row is in the view if and only if it is a row of the Ledger, its date lies in the
  closed range from startDate to endDate, its contributor is the selected one unless the
  selection is "All", its contribution is positive when the type is "Contribution" and
  its spend is positive when the type is "Spending".
\<close>

theorem filtered_df_keeps:
  "rows (filtered_df df s e c t) = filter (keeps s e c t) (rows df)
   \<and> columns (filtered_df df s e c t) = columns df
   \<and> (r \<in> set (rows (filtered_df df s e c t)) \<longleftrightarrow> r \<in> set (rows df) \<and> keeps s e c t r)"
proof -
  have "rows (filtered_df df s e c t) = filter (keeps s e c t) (rows df)"
    unfolding filtered_df_def filter_type_rows filter_contributor_rows filter_dates_rows
      filter_filter
    by (rule filter_cong) (auto simp: keeps_def)
  moreover have "columns (filtered_df df s e c t) = columns df"
    by (simp add: filtered_df_def filter_columns)
  ultimately show ?thesis by simp
qed

text \<open>
  The example ledger under three selections: Bob's spending in January, all rows up to
  the 14th, and the contributions of January.
\<close>

theorem filtered_df_keeps_witness:
  "rows (filtered_df example_df (2024, 1, 1) (2024, 1, 31) ''Bob'' ''Spending'')
     = [\<lparr>Date = ((2024, 1, 15), 0), Contributors = ''Bob'', Spend = 30,
         Contribution = 0, Balance = 70\<rparr>]
   \<and> rows (filtered_df example_df (2024, 1, 1) (2024, 1, 14) ''All'' ''All'')
     = [\<lparr>Date = ((2024, 1, 1), 0), Contributors = ''Alice'', Spend = 0,
         Contribution = 100, Balance = 100\<rparr>]
   \<and> rows (filtered_df example_df (2024, 1, 1) (2024, 1, 31) ''All'' ''Contribution'')
     = [\<lparr>Date = ((2024, 1, 1), 0), Contributors = ''Alice'', Spend = 0,
         Contribution = 100, Balance = 100\<rparr>]"
  using filtered_df_keeps [of example_df "(2024, 1, 1)" "(2024, 1, 31)" "''Bob''" "''Spending''"]
    filtered_df_keeps [of example_df "(2024, 1, 1)" "(2024, 1, 14)" "''All''" "''All''"]
    filtered_df_keeps [of example_df "(2024, 1, 1)" "(2024, 1, 31)" "''All''" "''Contribution''"]
  by (simp add: keeps_def example_df_def date_of_def)

lemma fst_mono_lex:
  fixes a b :: "'a::order \<times> 'b::order"
  shows "a \<le> b \<Longrightarrow> fst a \<le> fst b"
  by (auto simp: less_eq_prod_def less_imp_le)

lemma date_of_mono: "a \<le> b \<Longrightarrow> date_of a \<le> date_of b"
  unfolding date_of_def by (rule fst_mono_lex)

text \<open>
  C8. For every non-empty Ledger, the default filter parameters exist (the minimum and
  the maximum date of the Ledger), and the filter with startDate the minimum date,
  endDate the maximum date, contributor "All" and transactionType "All" gives a
  FilteredView equal to the full Ledger.
\<close>

theorem default_filter_is_identity:
  assumes "rows df \<noteq> []"
  shows "\<exists>lo hi. min_date df = Some lo \<and> max_date df = Some hi
           \<and> filtered_df df lo hi ''All'' ''All'' = df"
proof -
  let ?D = "set (map Date (rows df))"
  have fin: "finite ?D" by simp
  have all: "date_of (Min ?D) \<le> date_of (Date r) \<and> date_of (Date r) \<le> date_of (Max ?D)"
    if "r \<in> set (rows df)" for r
  proof -
    from that have "Date r \<in> ?D" by simp
    then show ?thesis using fin by (simp add: date_of_mono)
  qed
  have "filter (\<lambda>r. date_of (Min ?D) \<le> date_of (Date r)
          \<and> date_of (Date r) \<le> date_of (Max ?D)) (rows df) = rows df"
    using all by (simp add: filter_id_conv)
  then have "filtered_df df (date_of (Min ?D)) (date_of (Max ?D)) ''All'' ''All'' = df"
    by (simp add: filtered_df_def filter_type_def filter_contributor_def filter_dates_def)
  then show ?thesis using assms by (simp add: min_date_def max_date_def)
qed

text \<open>
  The example ledger spans the 1st to the 15th of January 2024, and the filter over that
  range with both selections at "All" returns it unchanged.
\<close>

theorem default_filter_is_identity_witness:
  "rows example_df \<noteq> []
   \<and> min_date example_df = Some (2024, 1, 1) \<and> max_date example_df = Some (2024, 1, 15)
   \<and> filtered_df example_df (2024, 1, 1) (2024, 1, 15) ''All'' ''All'' = example_df"
proof -
  have ne: "rows example_df \<noteq> []"
    by (simp add: example_df_def)
  have lo: "min_date example_df = Some (2024, 1, 1)"
    by (simp add: min_date_def example_df_def date_of_def)
  have hi: "max_date example_df = Some (2024, 1, 15)"
    by (simp add: max_date_def example_df_def date_of_def)
  from default_filter_is_identity [OF ne] lo hi ne show ?thesis
    by auto
qed

subsection \<open>The run\<close>

text \<open>
  What a run shows after a successful load: the metrics and the charts of the unfiltered
  frame, then the filtered table (and the export, when the button is pressed), or the
  handler's message when a date widget raises.
\<close>

lemma main_shows_view:
  assumes "load parse fs (file_path dir) = Inr df"
    and "date_input w ''Start Date'' (min_date df) = Some s"
    and "date_input w ''End Date'' (max_date df) = Some e"
    and "view = filtered_df df s e
           (selectbox w ''Contributor'' (''All'' # sort (remdups (map Contributors (rows df)))))
           (selectbox w ''Transaction Type'' [''All'', ''Contribution'', ''Spending''])"
  shows "main parse w dir fs =
           (if button w ''Export Filtered Data''
            then (SummaryMetrics (display_summary_metrics df) # charts df
                    @ [TransactionDetails view, DataExported (export_path dir)],
                  export fs dir view)
            else (SummaryMetrics (display_summary_metrics df) # charts df
                    @ [TransactionDetails view], fs))"
  using assms by (simp add: main_def transaction_details_def Let_def)

lemma main_date_input_raises:
  assumes "load parse fs (file_path dir) = Inr df"
    and "date_input w ''Start Date'' (min_date df) = None
         \<or> date_input w ''End Date'' (max_date df) = None"
  shows "main parse w dir fs =
           (SummaryMetrics (display_summary_metrics df) # charts df @ [ErrorMessage Exception], fs)"
  using assms by (auto simp: main_def transaction_details_def split: option.splits)

end
